theory Spec2Isabelle
  imports Main
begin

section \<open>JavaScript values and object literals used as tables\<close>

text \<open>
  The middlewares keep their counters in an object literal \<^verbatim>\<open>{}\<close>. Such an object has
  own properties, which the code writes, and it inherits the members of
  \<^verbatim>\<open>Object.prototype\<close>, which a read \<^verbatim>\<open>requests[key]\<close> returns when there is no own
  property of that name. Counters are natural numbers (a request counter stays far below
  \<^verbatim>\<open>2^53\<close>, where JavaScript numbers stop being exact). \<open>Builtin txt\<close> is a function
  or object of the runtime; \<open>txt\<close> is the string that conversion to a primitive gives.
\<close>

datatype jsval = Undefined | NaN | Num nat | Str string | Builtin string

type_synonym table = "string \<rightharpoonup> jsval"

definition nativeFunction :: "string \<Rightarrow> jsval" where
  "nativeFunction name = Builtin (''function '' @ name @ ''() { [native code] }'')"

definition objectPrototype :: "string \<Rightarrow> jsval option" where
  "objectPrototype k =
     (if k = ''__proto__'' then Some (Builtin ''[object Object]'')
      else if k = ''constructor'' then Some (nativeFunction ''Object'')
      else if k \<in> set [''__defineGetter__'', ''__defineSetter__'', ''hasOwnProperty'',
                        ''__lookupGetter__'', ''__lookupSetter__'', ''isPrototypeOf'',
                        ''propertyIsEnumerable'', ''toString'', ''valueOf'',
                        ''toLocaleString'']
      then Some (nativeFunction k)
      else None)"

text \<open>\<^verbatim>\<open>obj[k]\<close>: the own property, else the inherited member, else \<^verbatim>\<open>undefined\<close>.
  \<^verbatim>\<open>__proto__\<close> is an accessor of the prototype and never an own property.\<close>

definition getProp :: "table \<Rightarrow> string \<Rightarrow> jsval" where
  "getProp obj k =
     (if k = ''__proto__'' then Builtin ''[object Object]''
      else case obj k of
             Some v \<Rightarrow> v
           | None \<Rightarrow> (case objectPrototype k of Some b \<Rightarrow> b | None \<Rightarrow> Undefined))"

text \<open>\<^verbatim>\<open>obj[k] = v\<close> for a primitive \<open>v\<close>: an own property is written, except that the
  \<^verbatim>\<open>__proto__\<close> setter ignores a primitive.\<close>

definition setProp :: "table \<Rightarrow> string \<Rightarrow> jsval \<Rightarrow> table" where
  "setProp obj k v = (if k = ''__proto__'' then obj else obj(k \<mapsto> v))"

text \<open>A property key that is \<^verbatim>\<open>undefined\<close> is the string \<^verbatim>\<open>"undefined"\<close>.\<close>

definition propertyKey :: "string option \<Rightarrow> string" where
  "propertyKey v = (case v of None \<Rightarrow> ''undefined'' | Some s \<Rightarrow> s)"

text \<open>\<^verbatim>\<open>v || 0\<close>: the falsy values are \<^verbatim>\<open>undefined\<close>, \<^verbatim>\<open>NaN\<close>, \<^verbatim>\<open>0\<close> and the empty string.\<close>

definition js_or_zero :: "jsval \<Rightarrow> jsval" where
  "js_or_zero v =
     (case v of
        Undefined \<Rightarrow> Num 0
      | NaN \<Rightarrow> Num 0
      | Num n \<Rightarrow> Num n
      | Str s \<Rightarrow> (if s = [] then Num 0 else Str s)
      | Builtin t \<Rightarrow> Builtin t)"

text \<open>\<^verbatim>\<open>v + 1\<close>: addition on numbers, concatenation once an operand is a string or an object.\<close>

definition js_plus_one :: "jsval \<Rightarrow> jsval" where
  "js_plus_one v =
     (case v of
        Undefined \<Rightarrow> NaN
      | NaN \<Rightarrow> NaN
      | Num n \<Rightarrow> Num (n + 1)
      | Str s \<Rightarrow> Str (s @ ''1'')
      | Builtin t \<Rightarrow> Str (t @ ''1''))"

text \<open>
  Conversion of a string to a number, for the comparison with the maximum. Only what the
  tables can hold is modelled: the empty string is 0, a string of decimal digits is its
  value, and every other string is \<^verbatim>\<open>NaN\<close> (\<open>None\<close>). The strings the middlewares store
  all contain the text of an inherited member, so they are of the last kind.
\<close>

fun digits_value :: "string \<Rightarrow> nat \<Rightarrow> nat option" where
  "digits_value [] acc = Some acc"
| "digits_value (c # cs) acc =
     (if c \<in> set ''0123456789''
      then digits_value cs (10 * acc + (of_char c - 48))
      else None)"

definition to_number :: "jsval \<Rightarrow> nat option" where
  "to_number v =
     (case v of
        Undefined \<Rightarrow> None
      | NaN \<Rightarrow> None
      | Num n \<Rightarrow> Some n
      | Str s \<Rightarrow> digits_value s 0
      | Builtin t \<Rightarrow> digits_value t 0)"

text \<open>\<^verbatim>\<open>v > m\<close> for a number \<open>m\<close>: false when \<open>v\<close> converts to \<^verbatim>\<open>NaN\<close>.\<close>

definition js_gt :: "jsval \<Rightarrow> nat \<Rightarrow> bool" where
  "js_gt v m = (case to_number v of None \<Rightarrow> False | Some n \<Rightarrow> m < n)"

section \<open>Requests, responses and middleware outcomes\<close>

datatype json = JString string | JIsoDate nat

record response =
  status :: nat
  body :: "(string \<times> json) list"

record request =
  cookies :: "(string \<rightharpoonup> string) option"
  headers :: "string \<rightharpoonup> string"
  query :: "string \<rightharpoonup> string"
  ip :: "string option"

text \<open>A middleware either ends the request with a response or calls \<^verbatim>\<open>next()\<close>.\<close>

datatype outcome = Respond response | Next

section \<open>The rate-limit middlewares\<close>

text \<open>
  \<^verbatim>\<open>rateLimiter(maxRequests)\<close> of the middleware examples: the table \<open>requests\<close> lives in
  the closure, so the model takes it and returns it updated.
\<close>

definition tooMany :: response where
  "tooMany = \<lparr>status = 429, body = [(''error'', JString ''Too many requests'')]\<rparr>"

definition rateLimiter :: "nat \<Rightarrow> table \<Rightarrow> request \<Rightarrow> table \<times> outcome" where
  "rateLimiter maxRequests requests req =
     (let k = propertyKey (ip req);
          requests' = setProp requests k (js_plus_one (js_or_zero (getProp requests k)))
      in if js_gt (getProp requests' k) maxRequests
         then (requests', Respond tooMany)
         else (requests', Next))"

text \<open>
  The application of week 4: two module-level variables, a timer that replaces the table
  by a fresh \<^verbatim>\<open>{}\<close> every 1000 ms, and a rate-limit middleware keyed by the
  \<^verbatim>\<open>user-id\<close> header with the maximum 1 written into the comparison.
\<close>

record app_state =
  requestCounter :: nat
  numberOfRide1Requests :: table

definition initial_state :: app_state where
  "initial_state = \<lparr>requestCounter = 0, numberOfRide1Requests = Map.empty\<rparr>"

definition interval_callback :: "app_state \<Rightarrow> app_state" where
  "interval_callback s = s\<lparr>numberOfRide1Requests := Map.empty\<rparr>"

definition tooManyRide1 :: response where
  "tooManyRide1 =
     \<lparr>status = 429, body = [(''error'', JString ''You have made too many requests to ride1'')]\<rparr>"

definition rateLimitMiddleware :: "app_state \<Rightarrow> request \<Rightarrow> app_state \<times> outcome" where
  "rateLimitMiddleware s req =
     (let userId = propertyKey (headers req ''user-id'');
          tbl = setProp (numberOfRide1Requests s) userId
                  (js_plus_one (js_or_zero (getProp (numberOfRide1Requests s) userId)));
          s' = s\<lparr>numberOfRide1Requests := tbl\<rparr>
      in if js_gt (getProp tbl userId) 1
         then (s', Respond tooManyRide1)
         else (s', Next))"

text \<open>
  The rest of the week-4 chain: the request counter with its log line, the route handler
  (a parameter: it returns a response or throws), and the error-handling middleware,
  which Express calls with what a handler threw. The result is the new state, the
  response sent and the lines written to the console.
\<close>

record js_error =
  name :: string
  message :: string

fun decimal :: "nat \<Rightarrow> string" where
  "decimal n =
     (if n < 10 then [char_of (48 + n)]
      else decimal (n div 10) @ [char_of (48 + n mod 10)])"

definition errorMiddleware :: "js_error \<Rightarrow> response \<times> string list" where
  "errorMiddleware err = (\<lparr>status = 500, body = [(''error'', JString (message err))]\<rparr>, [])"

definition rootRoute :: "request \<Rightarrow> js_error + response" where
  "rootRoute req = Inl \<lparr>name = ''Error'', message = ''This is a test error''\<rparr>"

definition handleRequest ::
  "(request \<Rightarrow> js_error + response) \<Rightarrow> app_state \<Rightarrow> request
     \<Rightarrow> app_state \<times> response \<times> string list" where
  "handleRequest route s req =
     (case rateLimitMiddleware s req of
        (s1, Respond r) \<Rightarrow> (s1, r, [])
      | (s1, Next) \<Rightarrow>
          (let s2 = s1\<lparr>requestCounter := requestCounter s1 + 1\<rparr>;
               logged = [''Total requests: '' @ decimal (requestCounter s2)]
           in case route req of
                Inr r \<Rightarrow> (s2, r, logged)
              | Inl err \<Rightarrow>
                  (case errorMiddleware err of (r, lines) \<Rightarrow> (s2, r, logged @ lines))))"

text \<open>The error-handling middleware of the middleware examples: it logs the message and
  answers with a fixed text.\<close>

definition errorHandler :: "js_error \<Rightarrow> response \<times> string list" where
  "errorHandler err =
     (\<lparr>status = 500, body = [(''error'', JString ''Internal server error'')]\<rparr>,
      [''Error: '' @ message err])"

section \<open>Token authentication (week 6)\<close>

record user =
  username :: string
  password :: string

text \<open>The decoded payload of a token made by \<^verbatim>\<open>generateToken\<close>.\<close>

datatype payload = Payload (username: string) (iat: nat) (exp: nat)

definition JWT_SECRET :: "string option \<Rightarrow> string" where
  "JWT_SECRET env =
     (case env of
        None \<Rightarrow> ''your-secret-key''
      | Some s \<Rightarrow> (if s = [] then ''your-secret-key'' else s))"

text \<open>Truthiness of a value that is a string or missing.\<close>

definition truthy :: "string option \<Rightarrow> bool" where
  "truthy v = (case v of None \<Rightarrow> False | Some s \<Rightarrow> s \<noteq> [])"

definition startsWith :: "string \<Rightarrow> string \<Rightarrow> bool" where
  "startsWith s p = (take (length p) s = p)"

text \<open>\<^verbatim>\<open>s.split(c)\<close> keeps empty fields; \<^verbatim>\<open>xs[i]\<close> is \<^verbatim>\<open>undefined\<close> out of range.\<close>

fun split :: "string \<Rightarrow> char \<Rightarrow> string list" where
  "split [] c = [[]]"
| "split (x # xs) c =
     (if x = c then [] # split xs c
      else (case split xs c of [] \<Rightarrow> [[x]] | w # ws \<Rightarrow> (x # w) # ws))"

definition index :: "'a list \<Rightarrow> nat \<Rightarrow> 'a option" where
  "index xs i = (if i < length xs then Some (xs ! i) else None)"

text \<open>
  The first part of \<^verbatim>\<open>authenticateToken\<close>: the value of the local variable
  \<^verbatim>\<open>token\<close> after the chain of \<^verbatim>\<open>if\<close>/\<^verbatim>\<open>else if\<close>; \<open>None\<close> is \<^verbatim>\<open>null\<close> or
  \<^verbatim>\<open>undefined\<close>. Cookie, header and query values are strings.
\<close>

definition cookieToken :: "request \<Rightarrow> string option" where
  "cookieToken req = (case cookies req of None \<Rightarrow> None | Some cs \<Rightarrow> cs ''token'')"

definition hasBearer :: "request \<Rightarrow> bool" where
  "hasBearer req =
     (case headers req ''authorization'' of None \<Rightarrow> False | Some a \<Rightarrow> startsWith a ''Bearer '')"

definition bearerToken :: "request \<Rightarrow> string option" where
  "bearerToken req =
     (case headers req ''authorization'' of
        None \<Rightarrow> None
      | Some a \<Rightarrow> index (split a CHR '' '') 1)"

definition token :: "request \<Rightarrow> string option" where
  "token req =
     (if truthy (cookieToken req) then cookieToken req
      else if hasBearer req then bearerToken req
      else if truthy (headers req ''x-auth-token'') then headers req ''x-auth-token''
      else if truthy (query req ''token'') then query req ''token''
      else None)"

text \<open>
  What the middleware attaches to the request object, the later stages it invokes, and
  how it ends. \<open>verify\<close> stands for \<^verbatim>\<open>jwt.verify(token, JWT_SECRET)\<close> and \<open>findUser\<close>
  for the lookup in the user store; either returns or throws, and the
  \<^verbatim>\<open>try\<close>/\<^verbatim>\<open>catch\<close> of the source covers both.
\<close>

datatype attachment = UserRecord user | TokenData payload

datatype stage_call = Verify string | Find string | CallNext

record auth_run =
  result :: outcome
  attached :: "string \<rightharpoonup> attachment"
  calls :: "stage_call list"

definition json401 :: "string \<Rightarrow> response" where
  "json401 m = \<lparr>status = 401, body = [(''message'', JString m)]\<rparr>"

definition noTokenResponse :: response where
  "noTokenResponse =
     \<lparr>status = 401,
      body = [(''message'', JString ''Authentication required. No token provided.''),
              (''hint'', JString
                 ''Send token via Cookie, Authorization header, x-auth-token header, or query parameter'')]\<rparr>"

definition catchBlock :: "js_error \<Rightarrow> response" where
  "catchBlock error =
     (if name error = ''TokenExpiredError'' then json401 ''Token expired''
      else json401 ''Invalid token'')"

definition authenticateTokenWith ::
  "(string \<Rightarrow> js_error + payload) \<Rightarrow> (string \<Rightarrow> js_error + user option) \<Rightarrow> request
     \<Rightarrow> auth_run" where
  "authenticateTokenWith verify findUser req =
     (if \<not> truthy (token req)
      then \<lparr>result = Respond noTokenResponse, attached = Map.empty, calls = []\<rparr>
      else
        (case token req of
           None \<Rightarrow> \<lparr>result = Respond noTokenResponse, attached = Map.empty, calls = []\<rparr>
         | Some t \<Rightarrow>
            (case verify t of
               Inl error \<Rightarrow>
                 \<lparr>result = Respond (catchBlock error), attached = Map.empty, calls = [Verify t]\<rparr>
             | Inr decoded \<Rightarrow>
                 (case findUser (payload.username decoded) of
                    Inl error \<Rightarrow>
                      \<lparr>result = Respond (catchBlock error), attached = Map.empty,
                       calls = [Verify t, Find (payload.username decoded)]\<rparr>
                  | Inr None \<Rightarrow>
                      \<lparr>result = Respond (json401 ''User not found''), attached = Map.empty,
                       calls = [Verify t, Find (payload.username decoded)]\<rparr>
                  | Inr (Some u) \<Rightarrow>
                      \<lparr>result = Next,
                       attached = [''user'' \<mapsto> UserRecord u, ''tokenData'' \<mapsto> TokenData decoded],
                       calls = [Verify t, Find (payload.username decoded), CallNext]\<rparr>))))"

text \<open>The user store of the source is the array \<^verbatim>\<open>users\<close>; \<^verbatim>\<open>users.find\<close> returns the
  first match or \<^verbatim>\<open>undefined\<close> and does not throw.\<close>

definition usersFind :: "user list \<Rightarrow> string \<Rightarrow> js_error + user option" where
  "usersFind users n = Inr (List.find (\<lambda>u. user.username u = n) users)"

definition authenticateToken ::
  "(string \<Rightarrow> js_error + payload) \<Rightarrow> user list \<Rightarrow> request \<Rightarrow> auth_run" where
  "authenticateToken verify users req = authenticateTokenWith verify (usersFind users) req"

text \<open>
  \<^verbatim>\<open>next()\<close> hands the route handler the request object the middleware received, with
  the two properties added to it. The handler therefore still reads the cookies, headers
  and query parameters of the request, the token among them.
\<close>

type_synonym handler_request = "request \<times> (string \<rightharpoonup> attachment)"

definition nextRequest :: "request \<Rightarrow> auth_run \<Rightarrow> handler_request option" where
  "nextRequest req run =
     (case result run of Next \<Rightarrow> Some (req, attached run) | Respond r \<Rightarrow> None)"

text \<open>
  The handler of \<^verbatim>\<open>GET /me\<close> reads \<^verbatim>\<open>req.user.username\<close> and
  \<^verbatim>\<open>req.tokenData.exp\<close>. A missing property is a \<^verbatim>\<open>TypeError\<close>, and
  \<^verbatim>\<open>toISOString\<close> throws a \<^verbatim>\<open>RangeError\<close> when \<^verbatim>\<open>exp * 1000\<close> lies beyond the
  largest time value of a \<^verbatim>\<open>Date\<close>, 8640000000000000 ms.
\<close>

definition meHandler :: "handler_request \<Rightarrow> js_error + response" where
  "meHandler hreq =
     (case (snd hreq ''user'', snd hreq ''tokenData'') of
        (Some (UserRecord u), Some (TokenData d)) \<Rightarrow>
          (if exp d * 1000 \<le> 8640000000000000
           then Inr \<lparr>status = 200,
                     body = [(''username'', JString (user.username u)),
                             (''tokenExpiry'', JIsoDate (exp d * 1000))]\<rparr>
           else Inl \<lparr>name = ''RangeError'', message = ''Invalid time value''\<rparr>)
      | _ \<Rightarrow> Inl \<lparr>name = ''TypeError'', message = ''Cannot read properties of undefined''\<rparr>)"

text \<open>
  Modelled from the spec: \<^verbatim>\<open>jwt.verify\<close> belongs to the jsonwebtoken package, which is
  not part of the sources. Following the contract of the Token Verifier, a token is
  malformed when it is structurally invalid or its signature does not match the secret,
  and expired when it is structurally valid, correctly signed and the current time is
  past the encoded expiry. \<open>decode\<close> is the structural decoding of a token string; the
  signature is abstracted to the secret the token was signed with.
\<close>

record jwt =
  signedWith :: string
  claims :: payload

definition jwtVerify ::
  "(string \<Rightarrow> jwt option) \<Rightarrow> nat \<Rightarrow> string \<Rightarrow> string \<Rightarrow> js_error + payload" where
  "jwtVerify decode now t secret =
     (case decode t of
        None \<Rightarrow> Inl \<lparr>name = ''JsonWebTokenError'', message = ''jwt malformed''\<rparr>
      | Some j \<Rightarrow>
          (if signedWith j \<noteq> secret
           then Inl \<lparr>name = ''JsonWebTokenError'', message = ''invalid signature''\<rparr>
           else if exp (claims j) < now
           then Inl \<lparr>name = ''TokenExpiredError'', message = ''jwt expired''\<rparr>
           else Inr (claims j)))"

text \<open>The resolver as the specification words it: the four candidates in priority order,
  and the first of them that is non-empty.\<close>

definition spec_candidates :: "request \<Rightarrow> string option list" where
  "spec_candidates req =
     [cookieToken req,
      if hasBearer req then bearerToken req else None,
      headers req ''x-auth-token'',
      query req ''token'']"

definition spec_first_non_empty :: "string option list \<Rightarrow> string option" where
  "spec_first_non_empty cs = (case List.find truthy cs of None \<Rightarrow> None | Some c \<Rightarrow> c)"

section \<open>Example inputs\<close>

definition requestFrom :: "string \<Rightarrow> request" where
  "requestFrom uid =
     \<lparr>cookies = None, headers = [''user-id'' \<mapsto> uid], query = Map.empty, ip = None\<rparr>"

definition anonymousFrom :: "string \<Rightarrow> request" where
  "anonymousFrom addr =
     \<lparr>cookies = None, headers = Map.empty, query = Map.empty, ip = Some addr\<rparr>"

definition atMaximum :: app_state where
  "atMaximum = \<lparr>requestCounter = 1, numberOfRide1Requests = [''u1'' \<mapsto> Num 1]\<rparr>"

fun serveAll :: "nat \<Rightarrow> table \<Rightarrow> request list \<Rightarrow> table \<times> outcome list" where
  "serveAll m t [] = (t, [])"
| "serveAll m t (r # rs) =
     (case rateLimiter m t r of
        (t', out) \<Rightarrow> (case serveAll m t' rs of (t'', outs) \<Rightarrow> (t'', out # outs)))"

definition doubleSpaceRequest :: request where
  "doubleSpaceRequest =
     \<lparr>cookies = Some Map.empty,
      headers = [''authorization'' \<mapsto> ''Bearer  abc'', ''x-auth-token'' \<mapsto> ''tok''],
      query = Map.empty, ip = None\<rparr>"

definition emptyRequest :: request where
  "emptyRequest =
     \<lparr>cookies = Some Map.empty, headers = Map.empty, query = Map.empty, ip = None\<rparr>"

definition cookieRequest :: "string \<Rightarrow> request" where
  "cookieRequest t =
     \<lparr>cookies = Some [''token'' \<mapsto> t], headers = Map.empty, query = Map.empty, ip = None\<rparr>"

definition bearerRequest :: "string \<Rightarrow> request" where
  "bearerRequest t =
     \<lparr>cookies = Some Map.empty, headers = [''authorization'' \<mapsto> ''Bearer '' @ t],
      query = Map.empty, ip = None\<rparr>"

definition alice :: user where
  "alice = \<lparr>user.username = ''alice'', password = ''secret''\<rparr>"


definition acceptAll :: "string \<Rightarrow> js_error + payload" where
  "acceptAll t = Inr (Payload ''alice'' 0 3600)"

definition exampleDecode :: "string \<Rightarrow> jwt option" where
  "exampleDecode t =
     (if t = ''expired.jwt''
      then Some \<lparr>signedWith = ''your-secret-key'', claims = Payload ''alice'' 0 100\<rparr>
      else if t = ''forged.jwt''
      then Some \<lparr>signedWith = ''other-key'', claims = Payload ''alice'' 0 5000\<rparr>
      else None)"

section \<open>Properties of the rate-limit middlewares\<close>

lemmas js_defs = getProp_def setProp_def js_or_zero_def js_plus_one_def js_gt_def
  to_number_def objectPrototype_def nativeFunction_def propertyKey_def

lemma getProp_setProp_other: "k' \<noteq> k \<Longrightarrow> getProp (setProp t k v) k' = getProp t k'"
  by (simp add: getProp_def setProp_def)

lemma setProp_other: "k' \<noteq> k \<Longrightarrow> setProp t k v k' = t k'"
  by (simp add: setProp_def)

lemma rateLimitMiddleware_table:
  "numberOfRide1Requests (fst (rateLimitMiddleware s req)) =
     setProp (numberOfRide1Requests s) (propertyKey (headers req ''user-id''))
       (js_plus_one (js_or_zero (getProp (numberOfRide1Requests s)
          (propertyKey (headers req ''user-id'')))))"
  by (simp add: rateLimitMiddleware_def Let_def)

lemma rateLimitMiddleware_outcome:
  "snd (rateLimitMiddleware s req) =
     (if js_gt (if propertyKey (headers req ''user-id'') = ''__proto__''
                then Builtin ''[object Object]''
                else js_plus_one (js_or_zero (getProp (numberOfRide1Requests s)
                       (propertyKey (headers req ''user-id''))))) 1
      then Respond tooManyRide1
      else Next)"
  by (simp add: rateLimitMiddleware_def Let_def getProp_def setProp_def)

text \<open>
  C9. For two distinct principal identifiers \<open>a\<close> and \<open>b\<close>, a call of the rate-limit
  middleware for \<open>a\<close> leaves the table entry of \<open>b\<close> as it was, and the decision for a
  request of \<open>b\<close> is the same whether or not the call for \<open>a\<close> happened before it.
\<close>

theorem rate_limit_frame:
  assumes "headers reqA ''user-id'' = Some a" and "headers reqB ''user-id'' = Some b"
    and "a \<noteq> b"
  shows "numberOfRide1Requests (fst (rateLimitMiddleware s reqA)) b = numberOfRide1Requests s b
       \<and> getProp (numberOfRide1Requests (fst (rateLimitMiddleware s reqA))) b
           = getProp (numberOfRide1Requests s) b
       \<and> snd (rateLimitMiddleware (fst (rateLimitMiddleware s reqA)) reqB)
           = snd (rateLimitMiddleware s reqB)"
proof -
  have ka: "propertyKey (headers reqA ''user-id'') = a"
    and kb: "propertyKey (headers reqB ''user-id'') = b"
    using assms by (simp_all add: propertyKey_def)
  have own: "numberOfRide1Requests (fst (rateLimitMiddleware s reqA)) b = numberOfRide1Requests s b"
    using assms(3) by (simp add: rateLimitMiddleware_table ka setProp_other)
  have seen: "getProp (numberOfRide1Requests (fst (rateLimitMiddleware s reqA))) b
      = getProp (numberOfRide1Requests s) b"
    using assms(3) by (simp add: rateLimitMiddleware_table ka getProp_setProp_other)
  have "snd (rateLimitMiddleware (fst (rateLimitMiddleware s reqA)) reqB)
      = snd (rateLimitMiddleware s reqB)"
    by (simp only: rateLimitMiddleware_outcome kb seen)
  with own seen show ?thesis by simp
qed

theorem rate_limit_frame_witness:
  "headers (requestFrom ''u1'') ''user-id'' = Some ''u1''
   \<and> headers (requestFrom ''u2'') ''user-id'' = Some ''u2''
   \<and> ''u1'' \<noteq> ''u2''
   \<and> numberOfRide1Requests (fst (rateLimitMiddleware initial_state (requestFrom ''u1''))) ''u2''
       = numberOfRide1Requests initial_state ''u2''
   \<and> getProp (numberOfRide1Requests (fst (rateLimitMiddleware initial_state (requestFrom ''u1'')))) ''u2''
       = getProp (numberOfRide1Requests initial_state) ''u2''
   \<and> snd (rateLimitMiddleware (fst (rateLimitMiddleware initial_state (requestFrom ''u1''))) (requestFrom ''u2''))
       = snd (rateLimitMiddleware initial_state (requestFrom ''u2''))"
  using rate_limit_frame [of "requestFrom ''u1''" "''u1''" "requestFrom ''u2''" "''u2''" initial_state]
  by (simp add: requestFrom_def)

lemma rateLimitMiddleware_counted:
  assumes "getProp (numberOfRide1Requests s) (propertyKey (headers req ''user-id'')) = Num c"
  shows "rateLimitMiddleware s req =
           (s\<lparr>numberOfRide1Requests :=
                 (numberOfRide1Requests s)(propertyKey (headers req ''user-id'') \<mapsto> Num (c + 1))\<rparr>,
            if 1 < c + 1 then Respond tooManyRide1 else Next)"
  using assms
  by (auto simp add: rateLimitMiddleware_def getProp_def setProp_def js_or_zero_def
      js_plus_one_def js_gt_def to_number_def Let_def tooManyRide1_def
      split: if_splits option.splits)

lemma rateLimitMiddleware_fresh:
  assumes "getProp (numberOfRide1Requests s) (propertyKey (headers req ''user-id'')) = Undefined"
  shows "rateLimitMiddleware s req =
           (s\<lparr>numberOfRide1Requests :=
                 (numberOfRide1Requests s)(propertyKey (headers req ''user-id'') \<mapsto> Num 1)\<rparr>,
            Next)"
  using assms
  by (auto simp add: rateLimitMiddleware_def getProp_def setProp_def js_or_zero_def
      js_plus_one_def js_gt_def to_number_def Let_def
      split: if_splits option.splits)

lemma rateLimiter_counted:
  assumes "getProp requests (propertyKey (ip req)) = Num c"
  shows "rateLimiter maxRequests requests req =
           (requests(propertyKey (ip req) \<mapsto> Num (c + 1)),
            if maxRequests < c + 1 then Respond tooMany else Next)"
  using assms
  by (auto simp add: rateLimiter_def getProp_def setProp_def js_or_zero_def js_plus_one_def
      js_gt_def to_number_def Let_def tooMany_def split: if_splits option.splits)

lemma rateLimiter_fresh:
  assumes "getProp requests (propertyKey (ip req)) = Undefined"
  shows "rateLimiter maxRequests requests req =
           (requests(propertyKey (ip req) \<mapsto> Num 1),
            if maxRequests < 1 then Respond tooMany else Next)"
  using assms
  by (auto simp add: rateLimiter_def getProp_def setProp_def js_or_zero_def js_plus_one_def
      js_gt_def to_number_def Let_def tooMany_def split: if_splits option.splits)

lemma getProp_own_key: "k \<noteq> ''__proto__'' \<Longrightarrow> getProp (t(k \<mapsto> v)) k = v"
  by (simp add: getProp_def)

lemma getProp_Num_own: "getProp t k = Num c \<Longrightarrow> k \<noteq> ''__proto__''"
  by (auto simp add: getProp_def split: if_splits)

lemma getProp_Undefined_own: "getProp t k = Undefined \<Longrightarrow> k \<noteq> ''__proto__''"
  by (auto simp add: getProp_def split: if_splits)

text \<open>
  C10. Requests without a \<^verbatim>\<open>user-id\<close> header are all counted under the one key
  \<^verbatim>\<open>"undefined"\<close>: in a window where that key has no entry yet, the first such request
  is admitted with counter 1 and the second, from whichever client, is rejected with 429.
\<close>

theorem missing_user_id_shares_one_key:
  assumes "headers r1 ''user-id'' = None" and "headers r2 ''user-id'' = None"
    and "numberOfRide1Requests s ''undefined'' = None"
  shows "snd (rateLimitMiddleware s r1) = Next
       \<and> numberOfRide1Requests (fst (rateLimitMiddleware s r1))
           = (numberOfRide1Requests s)(''undefined'' \<mapsto> Num 1)
       \<and> snd (rateLimitMiddleware (fst (rateLimitMiddleware s r1)) r2) = Respond tooManyRide1
       \<and> numberOfRide1Requests (fst (rateLimitMiddleware (fst (rateLimitMiddleware s r1)) r2))
           = (numberOfRide1Requests s)(''undefined'' \<mapsto> Num 2)"
proof -
  have k1: "propertyKey (headers r1 ''user-id'') = ''undefined''"
    and k2: "propertyKey (headers r2 ''user-id'') = ''undefined''"
    using assms by (simp_all add: propertyKey_def)
  have "getProp (numberOfRide1Requests s) ''undefined'' = Undefined"
    using assms(3) by (simp add: getProp_def objectPrototype_def)
  then have first: "rateLimitMiddleware s r1 =
      (s\<lparr>numberOfRide1Requests := (numberOfRide1Requests s)(''undefined'' \<mapsto> Num 1)\<rparr>, Next)"
    using rateLimitMiddleware_fresh [of s r1] by (simp add: k1)
  have "getProp (numberOfRide1Requests (fst (rateLimitMiddleware s r1))) ''undefined'' = Num 1"
    by (simp add: first getProp_def)
  then have second: "rateLimitMiddleware (fst (rateLimitMiddleware s r1)) r2 =
      (s\<lparr>numberOfRide1Requests := (numberOfRide1Requests s)(''undefined'' \<mapsto> Num 2)\<rparr>,
       Respond tooManyRide1)"
    using rateLimitMiddleware_counted [of "fst (rateLimitMiddleware s r1)" r2 1]
    by (simp add: k2 first numeral_2_eq_2)
  show ?thesis
    unfolding second unfolding first by simp
qed

theorem missing_user_id_shares_one_key_witness:
  "headers (anonymousFrom ''10.0.0.1'') ''user-id'' = None
   \<and> headers (anonymousFrom ''10.0.0.2'') ''user-id'' = None
   \<and> numberOfRide1Requests (interval_callback initial_state) ''undefined'' = None
   \<and> anonymousFrom ''10.0.0.1'' \<noteq> anonymousFrom ''10.0.0.2''
   \<and> snd (rateLimitMiddleware (interval_callback initial_state) (anonymousFrom ''10.0.0.1'')) = Next
   \<and> snd (rateLimitMiddleware
             (fst (rateLimitMiddleware (interval_callback initial_state) (anonymousFrom ''10.0.0.1'')))
             (anonymousFrom ''10.0.0.2'')) = Respond tooManyRide1"
proof -
  have h1: "headers (anonymousFrom ''10.0.0.1'') ''user-id'' = None"
    and h2: "headers (anonymousFrom ''10.0.0.2'') ''user-id'' = None"
    and h3: "numberOfRide1Requests (interval_callback initial_state) ''undefined'' = None"
    and h4: "anonymousFrom ''10.0.0.1'' \<noteq> anonymousFrom ''10.0.0.2''"
    by (simp_all add: anonymousFrom_def interval_callback_def initial_state_def)
  from missing_user_id_shares_one_key [OF h1 h2 h3] h1 h2 h3 h4 show ?thesis
    by blast
qed

text \<open>
  C4, as amended. A call for a principal whose counter is already at or above the maximum
  rejects the request with 429 and stores the counter incremented by one: the counter
  counts every request, admitted or rejected. This holds for the parameterised
  \<^verbatim>\<open>rateLimiter\<close> and for the week-4 middleware, whose maximum is 1.
\<close>

theorem rejected_request_is_counted:
  assumes "getProp requests (propertyKey (ip req)) = Num c" and "maxRequests \<le> c"
    and "getProp (numberOfRide1Requests s) (propertyKey (headers req' ''user-id'')) = Num c'"
    and "1 \<le> c'"
  shows "rateLimiter maxRequests requests req =
           (requests(propertyKey (ip req) \<mapsto> Num (c + 1)), Respond tooMany)
       \<and> rateLimitMiddleware s req' =
           (s\<lparr>numberOfRide1Requests :=
                 (numberOfRide1Requests s)(propertyKey (headers req' ''user-id'') \<mapsto> Num (c' + 1))\<rparr>,
            Respond tooManyRide1)"
  using assms rateLimiter_counted [of requests req c maxRequests]
    rateLimitMiddleware_counted [of s req' c']
  by simp

theorem rejected_request_is_counted_witness:
  "getProp [''10.0.0.1'' \<mapsto> Num 5] (propertyKey (ip (anonymousFrom ''10.0.0.1''))) = Num 5
   \<and> (5::nat) \<le> 5
   \<and> getProp (numberOfRide1Requests atMaximum) (propertyKey (headers (requestFrom ''u1'') ''user-id'')) = Num 1
   \<and> (1::nat) \<le> 1
   \<and> rateLimiter 5 [''10.0.0.1'' \<mapsto> Num 5] (anonymousFrom ''10.0.0.1'') =
        ([''10.0.0.1'' \<mapsto> Num 5](propertyKey (ip (anonymousFrom ''10.0.0.1'')) \<mapsto> Num (5 + 1)),
         Respond tooMany)
   \<and> rateLimitMiddleware atMaximum (requestFrom ''u1'') =
        (atMaximum\<lparr>numberOfRide1Requests :=
           (numberOfRide1Requests atMaximum)
             (propertyKey (headers (requestFrom ''u1'') ''user-id'') \<mapsto> Num (1 + 1))\<rparr>,
         Respond tooManyRide1)"
proof -
  have h1: "getProp [''10.0.0.1'' \<mapsto> Num 5] (propertyKey (ip (anonymousFrom ''10.0.0.1''))) = Num 5"
    by (simp add: getProp_def propertyKey_def anonymousFrom_def)
  have h2: "(5::nat) \<le> 5" by simp
  have h3: "getProp (numberOfRide1Requests atMaximum)
              (propertyKey (headers (requestFrom ''u1'') ''user-id'')) = Num 1"
    by (simp add: getProp_def propertyKey_def requestFrom_def atMaximum_def)
  have h4: "(1::nat) \<le> 1" by simp
  from rejected_request_is_counted [OF h1 h2 h3 h4] h1 h2 h3 h4 show ?thesis
    by blast
qed

text \<open>The claim as first stated (the counter is left unchanged by a rejected call) fails
  at a counter that stands at the maximum 1: the call is rejected and the counter is 2.\<close>

theorem rejected_request_changes_counter:
  "getProp (numberOfRide1Requests atMaximum) ''u1'' = Num 1
   \<and> snd (rateLimitMiddleware atMaximum (requestFrom ''u1'')) = Respond tooManyRide1
   \<and> getProp (numberOfRide1Requests (fst (rateLimitMiddleware atMaximum (requestFrom ''u1'')))) ''u1''
       = Num 2
   \<and> getProp (numberOfRide1Requests (fst (rateLimitMiddleware atMaximum (requestFrom ''u1'')))) ''u1''
       \<noteq> getProp (numberOfRide1Requests atMaximum) ''u1''"
  by (simp add: rateLimitMiddleware_def atMaximum_def requestFrom_def tooManyRide1_def
      js_defs Let_def)

text \<open>
  C3, at the input where the code departs from it. Just after the timer has cleared the
  table, two requests with the header \<^verbatim>\<open>user-id: constructor\<close> arrive. The read
  \<^verbatim>\<open>numberOfRide1Requests["constructor"]\<close> finds the inherited function, the stored
  entry is that function's text followed by 1, its comparison with 1 is false, and both
  requests are admitted although the maximum is 1.
\<close>

theorem inherited_key_is_never_limited:
  "getProp (numberOfRide1Requests (interval_callback initial_state)) ''constructor''
     = Builtin ''function Object() { [native code] }''
   \<and> snd (rateLimitMiddleware (interval_callback initial_state) (requestFrom ''constructor'')) = Next
   \<and> getProp (numberOfRide1Requests
        (fst (rateLimitMiddleware (interval_callback initial_state) (requestFrom ''constructor''))))
        ''constructor'' = Str ''function Object() { [native code] }1''
   \<and> snd (rateLimitMiddleware
        (fst (rateLimitMiddleware (interval_callback initial_state) (requestFrom ''constructor'')))
        (requestFrom ''constructor'')) = Next"
  by (simp add: rateLimitMiddleware_def interval_callback_def initial_state_def requestFrom_def
      js_defs Let_def)

text \<open>
  For an identifier that is not the name of an inherited member the window behaves as
  intended: after the timer the first request is admitted with counter 1 and the second
  is rejected; with the parameterised limiter, of \<open>m + 1\<close> requests in a fresh window the
  first \<open>m\<close> are admitted and the last is rejected.
\<close>

lemma rate_limit_window_own_key:
  assumes "headers req ''user-id'' = Some u" and "objectPrototype u = None"
  shows "rateLimitMiddleware (interval_callback s) req =
           (s\<lparr>numberOfRide1Requests := [u \<mapsto> Num 1]\<rparr>, Next)
       \<and> rateLimitMiddleware (s\<lparr>numberOfRide1Requests := [u \<mapsto> Num 1]\<rparr>) req =
           (s\<lparr>numberOfRide1Requests := [u \<mapsto> Num 2]\<rparr>, Respond tooManyRide1)"
proof -
  have k: "propertyKey (headers req ''user-id'') = u"
    using assms(1) by (simp add: propertyKey_def)
  have u: "u \<noteq> ''__proto__''"
    using assms(2) by (auto simp add: objectPrototype_def)
  have "getProp (numberOfRide1Requests (interval_callback s)) u = Undefined"
    using assms(2) u by (simp add: getProp_def interval_callback_def)
  then have a: "rateLimitMiddleware (interval_callback s) req =
           (s\<lparr>numberOfRide1Requests := [u \<mapsto> Num 1]\<rparr>, Next)"
    using rateLimitMiddleware_fresh [of "interval_callback s" req]
    by (simp add: k interval_callback_def)
  have "getProp (numberOfRide1Requests (s\<lparr>numberOfRide1Requests := [u \<mapsto> Num 1]\<rparr>)) u = Num 1"
    using u by (simp add: getProp_def)
  then have "rateLimitMiddleware (s\<lparr>numberOfRide1Requests := [u \<mapsto> Num 1]\<rparr>) req =
           (s\<lparr>numberOfRide1Requests := [u \<mapsto> Num 2]\<rparr>, Respond tooManyRide1)"
    using rateLimitMiddleware_counted [of "s\<lparr>numberOfRide1Requests := [u \<mapsto> Num 1]\<rparr>" req 1]
    by (simp add: k numeral_2_eq_2)
  with a show ?thesis by simp
qed

lemma serveAll_Cons:
  "snd (serveAll m t (r # rs)) =
     snd (rateLimiter m t r) # snd (serveAll m (fst (rateLimiter m t r)) rs)"
  by (simp split: prod.splits)

lemma serveAll_counted:
  "getProp t (propertyKey (ip req)) = Num c \<Longrightarrow>
   snd (serveAll m t (replicate n req)) =
     map (\<lambda>i. if m < c + i then Respond tooMany else Next) [1..<Suc n]"
proof (induction n arbitrary: t c)
  case 0
  then show ?case by simp
next
  case (Suc n)
  let ?k = "propertyKey (ip req)"
  have step: "rateLimiter m t req =
      (t(?k \<mapsto> Num (c + 1)), if m < c + 1 then Respond tooMany else Next)"
    using Suc.prems by (rule rateLimiter_counted)
  have "getProp (t(?k \<mapsto> Num (c + 1))) ?k = Num (c + 1)"
    using getProp_Num_own [OF Suc.prems] by (simp add: getProp_own_key)
  from Suc.IH [OF this]
  have rest: "snd (serveAll m (t(?k \<mapsto> Num (c + 1))) (replicate n req)) =
      map (\<lambda>i. if m < c + 1 + i then Respond tooMany else Next) [1..<Suc n]" .
  have idx: "[1..<Suc (Suc n)] = 1 # map Suc [1..<Suc n]"
    by (simp add: map_Suc_upt upt_conv_Cons del: upt_Suc)
  have "snd (serveAll m t (replicate (Suc n) req)) =
      (if m < c + 1 then Respond tooMany else Next) #
      map (\<lambda>i. if m < c + 1 + i then Respond tooMany else Next) [1..<Suc n]"
    by (simp only: replicate_Suc serveAll_Cons step fst_conv snd_conv rest)
  also have "\<dots> = map (\<lambda>i. if m < c + i then Respond tooMany else Next) [1..<Suc (Suc n)]"
    unfolding idx by (simp add: comp_def del: upt_Suc)
  finally show ?case .
qed

lemma serveAll_boundary:
  assumes "getProp t (propertyKey (ip req)) = Undefined"
  shows "snd (serveAll m t (replicate (Suc m) req)) = replicate m Next @ [Respond tooMany]"
proof -
  let ?k = "propertyKey (ip req)"
  have step: "rateLimiter m t req =
      (t(?k \<mapsto> Num 1), if m < 1 then Respond tooMany else Next)"
    using assms by (rule rateLimiter_fresh)
  have "getProp (t(?k \<mapsto> Num 1)) ?k = Num 1"
    using getProp_Undefined_own [OF assms] by (simp add: getProp_own_key)
  from serveAll_counted [OF this, of m m]
  have rest: "snd (serveAll m (t(?k \<mapsto> Num 1)) (replicate m req)) =
      map (\<lambda>i. if m < 1 + i then Respond tooMany else Next) [1..<Suc m]" .
  have shape: "(if m < 1 then Respond tooMany else Next) #
      map (\<lambda>i. if m < 1 + i then Respond tooMany else Next) [1..<Suc m]
      = replicate m Next @ [Respond tooMany]"
    by (rule nth_equalityI) (auto simp add: nth_append nth_Cons split: nat.splits)
  have "snd (serveAll m t (replicate (Suc m) req)) =
      (if m < 1 then Respond tooMany else Next) #
      map (\<lambda>i. if m < 1 + i then Respond tooMany else Next) [1..<Suc m]"
    by (simp only: replicate_Suc serveAll_Cons step fst_conv snd_conv rest)
  with shape show ?thesis by simp
qed

section \<open>Properties of the error-handling middlewares\<close>

lemma decimal_one: "decimal (Suc 0) = ''1''"
  by code_simp

text \<open>
  C6, as amended. When a route handler of the week-4 application throws, the
  error-handling middleware answers 500 with the exception's own message as the body and
  writes nothing to the console (the only line logged is the request counter's), as the
  application's documentation shows. The error handler of the middleware examples
  answers 500 with the fixed body "Internal server error" and writes the exception's
  message to the console.
\<close>

theorem error_stage_answers:
  assumes "rateLimitMiddleware s req = (s1, Next)" and "route req = Inl err"
  shows "handleRequest route s req =
           (s1\<lparr>requestCounter := requestCounter s1 + 1\<rparr>,
            \<lparr>status = 500, body = [(''error'', JString (message err))]\<rparr>,
            [''Total requests: '' @ decimal (requestCounter s1 + 1)])
       \<and> errorHandler err =
           (\<lparr>status = 500, body = [(''error'', JString ''Internal server error'')]\<rparr>,
            [''Error: '' @ message err])"
  using assms
  by (simp add: handleRequest_def errorMiddleware_def errorHandler_def Let_def
      del: decimal.simps)

theorem error_stage_answers_witness:
  "rateLimitMiddleware initial_state (anonymousFrom ''127.0.0.1'') =
     (\<lparr>requestCounter = 0, numberOfRide1Requests = [''undefined'' \<mapsto> Num 1]\<rparr>, Next)
   \<and> rootRoute (anonymousFrom ''127.0.0.1'')
       = Inl \<lparr>name = ''Error'', message = ''This is a test error''\<rparr>
   \<and> handleRequest rootRoute initial_state (anonymousFrom ''127.0.0.1'') =
       (\<lparr>requestCounter = 1, numberOfRide1Requests = [''undefined'' \<mapsto> Num 1]\<rparr>,
        \<lparr>status = 500, body = [(''error'', JString ''This is a test error'')]\<rparr>,
        [''Total requests: 1''])
   \<and> errorHandler \<lparr>name = ''Error'', message = ''This is a test error''\<rparr> =
       (\<lparr>status = 500, body = [(''error'', JString ''Internal server error'')]\<rparr>,
        [''Error: This is a test error''])"
proof -
  let ?s1 = "\<lparr>requestCounter = 0, numberOfRide1Requests = [''undefined'' \<mapsto> Num 1]\<rparr>"
  let ?err = "\<lparr>name = ''Error'', message = ''This is a test error''\<rparr>"
  have h1: "rateLimitMiddleware initial_state (anonymousFrom ''127.0.0.1'') = (?s1, Next)"
    by (simp add: rateLimitMiddleware_def initial_state_def anonymousFrom_def js_defs Let_def)
  have h2: "rootRoute (anonymousFrom ''127.0.0.1'') = Inl ?err"
    by (simp add: rootRoute_def)
  from error_stage_answers [where route = rootRoute, OF h1 h2] h1 h2 show ?thesis
    by (simp add: decimal_one del: decimal.simps)
qed

text \<open>The statement that the body of every error response is a fixed text with nothing
  of the exception in it, and that the exception is logged, fails in the week-4
  application: for \<^verbatim>\<open>GET /\<close>, whose handler throws
  \<^verbatim>\<open>new Error("This is a test error")\<close>, the body is that message and no line about
  the exception is logged.\<close>

theorem error_middleware_sends_exception_message:
  "snd (handleRequest rootRoute initial_state (requestFrom ''u1'')) =
     (\<lparr>status = 500, body = [(''error'', JString ''This is a test error'')]\<rparr>,
      [''Total requests: 1''])"
  by (simp add: handleRequest_def rateLimitMiddleware_def initial_state_def requestFrom_def
      rootRoute_def errorMiddleware_def js_defs Let_def decimal_one del: decimal.simps)

section \<open>Properties of the authentication middleware\<close>

lemmas auth_defs = authenticateToken_def authenticateTokenWith_def token_def cookieToken_def
  hasBearer_def bearerToken_def truthy_def startsWith_def index_def

text \<open>
  C1, at the input where the code departs from it. The request has no cookie, the header
  \<^verbatim>\<open>Authorization: Bearer  abc\<close> (two spaces, so the field after the first space is
  empty) and the header \<^verbatim>\<open>x-auth-token: tok\<close>. The first non-empty candidate in
  priority order is \<^verbatim>\<open>tok\<close>, but the chain of \<^verbatim>\<open>else if\<close> has already taken the
  bearer branch: the token is the empty string and the request is refused with
  "No token provided", without any later stage being called.
\<close>

theorem empty_bearer_field_hides_later_sources:
  "hasBearer doubleSpaceRequest
   \<and> bearerToken doubleSpaceRequest = Some []
   \<and> spec_first_non_empty (spec_candidates doubleSpaceRequest) = Some ''tok''
   \<and> token doubleSpaceRequest = Some []
   \<and> authenticateToken verify users doubleSpaceRequest =
        \<lparr>result = Respond noTokenResponse, attached = Map.empty, calls = []\<rparr>"
  by (simp add: auth_defs doubleSpaceRequest_def spec_candidates_def spec_first_non_empty_def)

text \<open>
  Apart from that case the resolver is the first non-empty candidate in priority order,
  and a non-empty cookie token always wins.
\<close>

lemma truthy_None: "truthy None = False"
  by (simp add: truthy_def)

lemma token_cookie_first: "truthy (cookieToken req) \<Longrightarrow> token req = cookieToken req"
  by (simp add: token_def)

lemma token_first_non_empty:
  assumes "truthy (cookieToken req) \<or> \<not> hasBearer req \<or> truthy (bearerToken req)"
  shows "(if truthy (token req) then token req else None) = spec_first_non_empty (spec_candidates req)"
  using assms by (auto simp add: token_def spec_candidates_def spec_first_non_empty_def truthy_None)

text \<open>
  C5. When none of the four sources yields a token (no non-empty cookie token, no bearer
  header with a non-empty token, no non-empty custom header, no non-empty query
  parameter), the middleware answers with the 401 "no token provided" response and calls
  nothing: neither the verifier, nor the user lookup, nor \<^verbatim>\<open>next()\<close> behind which any
  later stage would run. The result does not depend on \<open>verify\<close> or \<open>findUser\<close>.
\<close>

theorem no_credential_short_circuit:
  assumes "\<not> truthy (cookieToken req)"
    and "\<not> (hasBearer req \<and> truthy (bearerToken req))"
    and "\<not> truthy (headers req ''x-auth-token'')"
    and "\<not> truthy (query req ''token'')"
  shows "authenticateTokenWith verify findUser req =
           \<lparr>result = Respond noTokenResponse, attached = Map.empty, calls = []\<rparr>
       \<and> status noTokenResponse = 401"
proof -
  have "\<not> truthy (token req)"
    using assms by (auto simp add: token_def truthy_def)
  then show ?thesis
    by (simp add: authenticateTokenWith_def noTokenResponse_def)
qed

theorem no_credential_short_circuit_witness:
  "\<not> truthy (cookieToken emptyRequest)
   \<and> \<not> (hasBearer emptyRequest \<and> truthy (bearerToken emptyRequest))
   \<and> \<not> truthy (headers emptyRequest ''x-auth-token'')
   \<and> \<not> truthy (query emptyRequest ''token'')
   \<and> authenticateTokenWith acceptAll (usersFind [alice]) emptyRequest =
        \<lparr>result = Respond noTokenResponse, attached = Map.empty, calls = []\<rparr>
   \<and> status noTokenResponse = 401"
proof -
  have h1: "\<not> truthy (cookieToken emptyRequest)"
    and h2: "\<not> (hasBearer emptyRequest \<and> truthy (bearerToken emptyRequest))"
    and h3: "\<not> truthy (headers emptyRequest ''x-auth-token'')"
    and h4: "\<not> truthy (query emptyRequest ''token'')"
    by (simp_all add: emptyRequest_def cookieToken_def hasBearer_def truthy_def)
  from no_credential_short_circuit [OF h1 h2 h3 h4, of acceptAll "usersFind [alice]"] h1 h2 h3 h4
  show ?thesis by blast
qed


lemma token_cookieRequest: "t \<noteq> [] \<Longrightarrow> token (cookieRequest t) = Some t"
  by (simp add: token_def cookieToken_def cookieRequest_def truthy_def)

lemma authenticate_verify_throws:
  assumes "token req = Some t" and "t \<noteq> []" and "verify t = Inl e"
  shows "authenticateTokenWith verify findUser req =
           \<lparr>result = Respond (catchBlock e), attached = Map.empty, calls = [Verify t]\<rparr>"
  using assms by (simp add: authenticateTokenWith_def truthy_def)


lemma jwtVerify_cases:
  "(\<exists>d. jwtVerify decode now t secret = Inr d)
   \<or> (\<exists>m. jwtVerify decode now t secret = Inl \<lparr>name = ''TokenExpiredError'', message = m\<rparr>)
   \<or> (\<exists>m. jwtVerify decode now t secret = Inl \<lparr>name = ''JsonWebTokenError'', message = m\<rparr>)"
  by (simp add: jwtVerify_def split: option.splits)

text \<open>
  C2. With the verifier of the contract, a token signed with the server's secret whose
  expiry is in the past is answered "Token expired"; a token that does not decode, or
  that is signed with another secret whatever its expiry, is answered "Invalid token";
  and the two answers differ.
\<close>

theorem expired_and_malformed_are_distinguished:
  assumes "token reqE = Some tE" and "tE \<noteq> []"
    and "decode tE = Some j" and "signedWith j = JWT_SECRET env" and "exp (claims j) < now"
    and "token reqM = Some tM" and "tM \<noteq> []"
    and "decode tM = None \<or> (\<exists>j'. decode tM = Some j' \<and> signedWith j' \<noteq> JWT_SECRET env)"
  shows "result (authenticateToken (\<lambda>t. jwtVerify decode now t (JWT_SECRET env)) users reqE)
           = Respond (json401 ''Token expired'')
       \<and> result (authenticateToken (\<lambda>t. jwtVerify decode now t (JWT_SECRET env)) users reqM)
           = Respond (json401 ''Invalid token'')
       \<and> json401 ''Token expired'' \<noteq> json401 ''Invalid token''"
proof -
  let ?verify = "\<lambda>t. jwtVerify decode now t (JWT_SECRET env)"
  have "?verify tE = Inl \<lparr>name = ''TokenExpiredError'', message = ''jwt expired''\<rparr>"
    using assms(3-5) by (simp add: jwtVerify_def)
  from authenticate_verify_throws [where verify = "?verify" and t = tE, OF assms(1,2) this]
  have expired: "result (authenticateToken ?verify users reqE) = Respond (json401 ''Token expired'')"
    by (simp add: authenticateToken_def catchBlock_def)
  have "\<exists>m. ?verify tM = Inl \<lparr>name = ''JsonWebTokenError'', message = m\<rparr>"
    using assms(8) by (auto simp add: jwtVerify_def)
  then obtain m where "?verify tM = Inl \<lparr>name = ''JsonWebTokenError'', message = m\<rparr>" ..
  from authenticate_verify_throws [where verify = "?verify" and t = tM, OF assms(6,7) this]
  have malformed: "result (authenticateToken ?verify users reqM) = Respond (json401 ''Invalid token'')"
    by (simp add: authenticateToken_def catchBlock_def)
  have "json401 ''Token expired'' \<noteq> json401 ''Invalid token''"
    by (simp add: json401_def)
  with expired malformed show ?thesis by simp
qed

theorem expired_and_malformed_are_distinguished_witness:
  "token (cookieRequest ''expired.jwt'') = Some ''expired.jwt''
   \<and> exampleDecode ''expired.jwt''
       = Some \<lparr>signedWith = ''your-secret-key'', claims = Payload ''alice'' 0 100\<rparr>
   \<and> JWT_SECRET None = ''your-secret-key''
   \<and> exp (Payload ''alice'' 0 100) < (1000::nat)
   \<and> token (bearerRequest ''forged.jwt'') = Some ''forged.jwt''
   \<and> exampleDecode ''forged.jwt''
       = Some \<lparr>signedWith = ''other-key'', claims = Payload ''alice'' 0 5000\<rparr>
   \<and> result (authenticateToken (\<lambda>t. jwtVerify exampleDecode 1000 t (JWT_SECRET None)) [alice]
        (cookieRequest ''expired.jwt'')) = Respond (json401 ''Token expired'')
   \<and> result (authenticateToken (\<lambda>t. jwtVerify exampleDecode 1000 t (JWT_SECRET None)) [alice]
        (bearerRequest ''forged.jwt'')) = Respond (json401 ''Invalid token'')
   \<and> json401 ''Token expired'' \<noteq> json401 ''Invalid token''"
proof -
  let ?j = "\<lparr>signedWith = ''your-secret-key'', claims = Payload ''alice'' 0 100\<rparr>"
  let ?f = "\<lparr>signedWith = ''other-key'', claims = Payload ''alice'' 0 5000\<rparr>"
  have e1: "token (cookieRequest ''expired.jwt'') = Some ''expired.jwt''"
    by (simp add: token_cookieRequest)
  have e2: "''expired.jwt'' \<noteq> []" by simp
  have e3: "exampleDecode ''expired.jwt'' = Some ?j"
    by (simp add: exampleDecode_def)
  have e4: "signedWith ?j = JWT_SECRET None"
    and s: "JWT_SECRET None = ''your-secret-key''"
    by (simp_all add: JWT_SECRET_def)
  have e5: "exp (claims ?j) < (1000::nat)"
    and e5': "exp (Payload ''alice'' 0 100) < (1000::nat)" by simp_all
  have m1: "token (bearerRequest ''forged.jwt'') = Some ''forged.jwt''"
    by (simp add: auth_defs bearerRequest_def)
  have m2: "''forged.jwt'' \<noteq> []" by simp
  have m3': "exampleDecode ''forged.jwt'' = Some ?f"
    by (simp add: exampleDecode_def)
  have m3: "exampleDecode ''forged.jwt'' = None
      \<or> (\<exists>j'. exampleDecode ''forged.jwt'' = Some j' \<and> signedWith j' \<noteq> JWT_SECRET None)"
    by (simp add: m3' JWT_SECRET_def)
  from expired_and_malformed_are_distinguished
         [where decode = exampleDecode and tE = "''expired.jwt''" and tM = "''forged.jwt''"
            and users = "[alice]", OF e1 e2 e3 e4 e5 m1 m2 m3]
    e1 e3 s e5' m1 m3'
  show ?thesis by blast
qed



text \<open>
  C8, as amended. When the middleware calls \<^verbatim>\<open>next()\<close>, the handler receives the
  request object that came in, with exactly two properties added: \<^verbatim>\<open>user\<close>, the
  record found in the store, and \<^verbatim>\<open>tokenData\<close>, the decoded payload of the token.
  The token string itself is still in that request, where the resolver found it.
\<close>

theorem admitted_request_context:
  assumes "result (authenticateToken verify users req) = Next"
  shows "\<exists>t d u. token req = Some t \<and> t \<noteq> [] \<and> verify t = Inr d
            \<and> List.find (\<lambda>u. user.username u = payload.username d) users = Some u
            \<and> nextRequest req (authenticateToken verify users req)
                = Some (req, [''user'' \<mapsto> UserRecord u, ''tokenData'' \<mapsto> TokenData d])"
  using assms
  by (auto simp add: authenticateToken_def authenticateTokenWith_def usersFind_def
      nextRequest_def truthy_def
      split: if_splits option.splits sum.splits)

theorem admitted_request_context_witness:
  "result (authenticateToken acceptAll [alice] (bearerRequest ''tok'')) = Next
   \<and> (\<exists>t d u. token (bearerRequest ''tok'') = Some t \<and> t \<noteq> [] \<and> acceptAll t = Inr d
            \<and> List.find (\<lambda>u. user.username u = payload.username d) [alice] = Some u
            \<and> nextRequest (bearerRequest ''tok'')
                 (authenticateToken acceptAll [alice] (bearerRequest ''tok''))
                = Some (bearerRequest ''tok'',
                        [''user'' \<mapsto> UserRecord u, ''tokenData'' \<mapsto> TokenData d]))"
proof -
  have h: "result (authenticateToken acceptAll [alice] (bearerRequest ''tok'')) = Next"
    by (simp add: auth_defs bearerRequest_def acceptAll_def usersFind_def alice_def)
  from admitted_request_context [OF h] h show ?thesis by blast
qed

text \<open>The statement that the handler is shown the principal and nothing else fails on
  both counts: the decoded payload is attached (the handler of \<^verbatim>\<open>GET /me\<close> reads its
  expiry), and the request the handler receives still carries the raw token in its
  cookie.\<close>

theorem handler_reads_payload_and_raw_token:
  "nextRequest (cookieRequest ''tok'') (authenticateToken acceptAll [alice] (cookieRequest ''tok''))
     = Some (cookieRequest ''tok'',
             [''user'' \<mapsto> UserRecord alice, ''tokenData'' \<mapsto> TokenData (Payload ''alice'' 0 3600)])
   \<and> cookieToken (cookieRequest ''tok'') = Some ''tok''
   \<and> meHandler (cookieRequest ''tok'',
        [''user'' \<mapsto> UserRecord alice, ''tokenData'' \<mapsto> TokenData (Payload ''alice'' 0 3600)])
       = Inr \<lparr>status = 200,
              body = [(''username'', JString ''alice''), (''tokenExpiry'', JIsoDate 3600000)]\<rparr>"
  by (simp add: auth_defs cookieRequest_def acceptAll_def usersFind_def alice_def meHandler_def
      nextRequest_def)

end
